theory Spec2Isabelle
  imports Complex_Main
begin

section \<open>Data model of \<open>src/app/page.tsx\<close>\<close>

text \<open>
  The particle burst of the landing page: \<open>makeParticles\<close> creates the burst and the
  \<open>tick\<close> callback of \<open>BurstCanvas\<close> advances, draws and culls it once per frame.

  JavaScript numbers are modelled as \<open>real\<close>: arithmetic is exact, there is no rounding
  and no NaN. \<open>Math.pow(drag, e)\<close> with a positive base is \<open>drag powr e\<close>,
  \<open>Math.cos\<close>, \<open>Math.sin\<close> and \<open>Math.PI\<close> are \<open>cos\<close>, \<open>sin\<close> and \<open>pi\<close>.
\<close>

datatype BurstKind = KNone | Game | Media

text \<open>
  The type \<open>Particle\<close>. The field \<open>p.x\<close> of the source is \<open>p_x\<close> here, and so on for
  every field: the bare names would capture the variables \<open>x\<close>, \<open>y\<close> and the constant
  \<open>size\<close>.
\<close>

record Particle =
  p_x :: real
  p_y :: real
  p_vx :: real
  p_vy :: real
  p_life :: real
  p_size :: real
  p_rot :: real
  p_vr :: real
  p_hollow :: bool

definition clamp :: "real \<Rightarrow> real \<Rightarrow> real \<Rightarrow> real" where
  "clamp n a b = max a (min b n)"

subsection \<open>The random source\<close>

text \<open>
  \<open>Math.random\<close> is a global stateful source. It is modelled as the stream of the
  draws still to come; a call returns the head and leaves the tail. The source
  promises draws in \<open>[0, 1)\<close>, which is \<open>rng_ok\<close>.
\<close>

type_synonym rng = "nat \<Rightarrow> real"

definition Math_random :: "rng \<Rightarrow> real \<times> rng" where
  "Math_random r = (r 0, \<lambda>n. r (Suc n))"

definition rng_ok :: "rng \<Rightarrow> bool" where
  "rng_ok r = (\<forall>n. 0 \<le> r n \<and> r n < 1)"

definition rand :: "real \<Rightarrow> real \<Rightarrow> rng \<Rightarrow> real \<times> rng" where
  "rand lo hi r = (let (u, r') = Math_random r in (u * (hi - lo) + lo, r'))"

section \<open>The particle factory\<close>

text \<open>
  One iteration of the loop of \<open>makeParticles\<close>: the draws happen in the order of the
  source (angle, speed, the two jitters, then the fields of the object literal in the
  order they are written; \<open>hollow\<close> draws only for kind \<open>media\<close>).
\<close>

definition spawn :: "BurstKind \<Rightarrow> real \<Rightarrow> real \<Rightarrow> rng \<Rightarrow> Particle \<times> rng" where
  "spawn kind x0 y0 r =
    (let (angle, r1) = rand (- pi * 0.9) (- pi * 0.1) r;
         (speed, r2) = (if kind = Game then rand 140 360 r1 else rand 110 280 r1);
         (jx, r3) = rand (- 60) 60 r2;
         vx = cos angle * speed + jx;
         (jy, r4) = rand (- 40) 40 r3;
         vy = sin angle * speed + jy;
         (sz, r5) = (if kind = Game then rand 4 10 r4 else rand 3 9 r4);
         (rt, r6) = rand 0 (pi * 2) r5;
         (w, r7) = rand (- 6) 6 r6;
         (hol, r8) = (if kind = Media
                      then (let (u, r') = Math_random r7 in (u < 0.35, r'))
                      else (False, r7))
     in (\<lparr>p_x = x0, p_y = y0, p_vx = vx, p_vy = vy, p_life = 1, p_size = sz,
          p_rot = rt, p_vr = w, p_hollow = hol\<rparr>, r8))"

text \<open>The loop \<open>for (let i = 0; i < count; i++) out.push(...)\<close>.\<close>

function makeParticles_loop ::
  "BurstKind \<Rightarrow> real \<Rightarrow> real \<Rightarrow> nat \<Rightarrow> nat \<Rightarrow> Particle list \<Rightarrow> rng \<Rightarrow> Particle list \<times> rng"
where
  "makeParticles_loop kind x0 y0 count i out r =
    (if i < count
     then (let (p, r') = spawn kind x0 y0 r
           in makeParticles_loop kind x0 y0 count (i + 1) (out @ [p]) r')
     else (out, r))"
  by pat_completeness auto
termination
  by (relation "measure (\<lambda>(kind, x0, y0, count, i, out, r). count - i)") auto

definition makeParticles :: "BurstKind \<Rightarrow> real \<Rightarrow> real \<Rightarrow> rng \<Rightarrow> Particle list \<times> rng" where
  "makeParticles kind x0 y0 r =
    (let count = (if kind = Game then 55 else 45)
     in makeParticles_loop kind x0 y0 count 0 [] r)"

section \<open>The simulation loop\<close>

text \<open>The calls \<open>tick\<close> makes on the 2D drawing context, in the order it makes them.\<close>

datatype ctx_call =
    ClearRect real real real real
  | Save
  | Restore
  | Translate real real
  | Rotate real
  | SetGlobalAlpha real
  | SetFillStyle string
  | SetStrokeStyle string
  | SetLineWidth real
  | FillRect real real real real
  | BeginPath
  | Arc real real real real real
  | Stroke
  | Fill

text \<open>
  The body of \<open>for (const p of particles)\<close>, first half: physics and fade-out. Each
  line of the source is one update of the particle, in the source's order; \<open>g\<close> and
  \<open>drag\<close> are the constants \<open>tick\<close> computes before the loop.
\<close>

definition update_particle :: "BurstKind \<Rightarrow> real \<Rightarrow> real \<Rightarrow> real \<Rightarrow> Particle \<Rightarrow> Particle" where
  "update_particle kind g drag dt p =
    (let p1 = p\<lparr>p_vy := p_vy p + g * dt\<rparr>;
         p2 = p1\<lparr>p_vx := p_vx p1 * (drag powr (dt * 60))\<rparr>;
         p3 = p2\<lparr>p_vy := p_vy p2 * (drag powr (dt * 60))\<rparr>;
         p4 = p3\<lparr>p_x := p_x p3 + p_vx p3 * dt\<rparr>;
         p5 = p4\<lparr>p_y := p_y p4 + p_vy p4 * dt\<rparr>;
         p6 = p5\<lparr>p_rot := p_rot p5 + p_vr p5 * dt\<rparr>;
         p7 = p6\<lparr>p_life := p_life p6 - dt * (if kind = Game then 1.35 else 1.2)\<rparr>
     in p7\<lparr>p_life := clamp (p_life p7) 0 1\<rparr>)"

text \<open>
  Second half of the body: the drawing of the updated particle. \<open>if (a <= 0) continue\<close>
  is the empty list of calls. Kind \<open>game\<close> draws a rotated white square; every other
  kind takes the \<open>else\<close> branch, which draws one \<open>Math.random\<close> for the colour pair.
\<close>

definition draw_particle :: "BurstKind \<Rightarrow> Particle \<Rightarrow> rng \<Rightarrow> ctx_call list \<times> rng" where
  "draw_particle kind p r =
    (let a = p_life p in
     if a \<le> 0 then ([], r)
     else if kind = Game then
       (let s = p_size p in
        ([Save, Translate (p_x p) (p_y p), Rotate (p_rot p), SetGlobalAlpha a,
          SetFillStyle ''rgba(255,255,255,1)'',
          FillRect (- s / 2) (- s / 2) s s, Restore], r))
     else
       (let (u, r') = Math_random r;
            isHot = (u < 0.5);
            fill = (if isHot then ''#d10b66'' else ''#ff5aa5'');
            stroke = (if isHot then ''#ff5aa5'' else ''#d10b66'');
            rad = p_size p / 2
        in ([Save, SetGlobalAlpha a, BeginPath, Arc (p_x p) (p_y p) rad 0 (pi * 2)]
            @ (if p_hollow p
               then [SetLineWidth 2, SetStrokeStyle stroke, Stroke]
               else [SetFillStyle fill, Fill])
            @ [Restore], r')))"

text \<open>
  The loop over the particles: every particle is updated in place, and the calls of
  the live ones are appended to the frame's calls.
\<close>

fun tick_loop ::
  "BurstKind \<Rightarrow> real \<Rightarrow> real \<Rightarrow> real \<Rightarrow> Particle list \<Rightarrow> rng
    \<Rightarrow> Particle list \<times> ctx_call list \<times> rng"
where
  "tick_loop kind g drag dt [] r = ([], [], r)"
| "tick_loop kind g drag dt (p # ps) r =
    (let p' = update_particle kind g drag dt p;
         (calls, r1) = draw_particle kind p' r;
         (ps', calls', r2) = tick_loop kind g drag dt ps r1
     in (p' # ps', calls @ calls', r2))"

text \<open>
  The state the effect of \<open>BurstCanvas\<close> keeps between frames: \<open>particlesRef\<close>,
  \<open>lastTRef\<close>, whether \<open>rafRef\<close> holds a requested frame, and the random source.
\<close>

record burst_state =
  particles :: "Particle list"
  lastT :: real
  scheduled :: bool
  random_src :: rng

text \<open>
  The constants \<open>tick\<close> computes before its loop: the clamped elapsed time
  \<open>const dt = clamp((t - lastTRef.current) / 1000, 0, 0.033)\<close>, the gravity
  \<open>const g = kind === "game" ? 520 : 420\<close> and the drag
  \<open>const drag = kind === "game" ? 0.86 : 0.88\<close>.
\<close>

definition frame_dt :: "real \<Rightarrow> burst_state \<Rightarrow> real" where
  "frame_dt t s = clamp ((t - lastT s) / 1000) 0 0.033"

definition gravity :: "BurstKind \<Rightarrow> real" where
  "gravity kind = (if kind = Game then 520 else 420)"

definition drag_of :: "BurstKind \<Rightarrow> real" where
  "drag_of kind = (if kind = Game then 0.86 else 0.88)"

text \<open>
  One call of \<open>tick\<close> at time \<open>t\<close> (milliseconds) on a canvas of logical size
  \<open>w\<close> by \<open>h\<close>: the new state and the context calls of the frame.
\<close>

definition tick :: "BurstKind \<Rightarrow> real \<Rightarrow> real \<Rightarrow> real \<Rightarrow> burst_state \<Rightarrow> burst_state \<times> ctx_call list" where
  "tick kind w h t s =
    (let dt = frame_dt t s;
         s1 = s\<lparr>lastT := t\<rparr>;
         g = gravity kind;
         drag = drag_of kind;
         (ps', calls, r') = tick_loop kind g drag dt (particles s1) (random_src s1);
         s2 = s1\<lparr>particles := filter (\<lambda>p. p_life p > 0) ps', random_src := r'\<rparr>
     in (s2\<lparr>scheduled := (length (particles s2) > 0)\<rparr>, ClearRect 0 0 w h # calls))"

text \<open>
  The effect that starts a burst. It returns early, doing nothing, when the canvas is
  not active, when the kind is \<open>none\<close>, or when the canvas or its context is missing
  (\<open>rect = None\<close>); the early return is \<open>None\<close>. Otherwise the burst is created at
  the centre of the canvas, the clock is read and the first frame requested.
\<close>

definition start_burst ::
  "bool \<Rightarrow> BurstKind \<Rightarrow> (real \<times> real) option \<Rightarrow> real \<Rightarrow> burst_state \<Rightarrow> burst_state option" where
  "start_burst active kind rect now s =
    (if \<not> active \<or> kind = KNone then None
     else case rect of
       None \<Rightarrow> None
     | Some (w, h) \<Rightarrow>
         (let originX = w / 2;
              originY = h / 2;
              (ps, r') = makeParticles kind originX originY (random_src s)
          in Some (s\<lparr>particles := ps, lastT := now, scheduled := True, random_src := r'\<rparr>)))"

subsection \<open>Derived notions used to state the properties\<close>

text \<open>
  The drawing of a list of particles, one after the other, with the random source
  threaded through: what the loop of \<open>tick\<close> draws, without the physics.
\<close>

fun draw_list :: "BurstKind \<Rightarrow> Particle list \<Rightarrow> rng \<Rightarrow> ctx_call list \<times> rng" where
  "draw_list kind [] r = ([], r)"
| "draw_list kind (p # ps) r =
    (let (calls, r1) = draw_particle kind p r;
         (calls', r2) = draw_list kind ps r1
     in (calls @ calls', r2))"

text \<open>The state of one particle after the frames with elapsed times \<open>dts\<close>.\<close>

definition after_frames :: "BurstKind \<Rightarrow> real list \<Rightarrow> Particle \<Rightarrow> Particle" where
  "after_frames kind dts p =
     foldl (\<lambda>q dt. update_particle kind (gravity kind) (drag_of kind) dt q) p dts"

text \<open>What every freshly spawned particle of a kind satisfies: life 1, and size,
  angular velocity and rotation in their ranges.\<close>

definition fresh :: "BurstKind \<Rightarrow> Particle \<Rightarrow> bool" where
  "fresh kind p =
    (p_life p = 1
     \<and> (if kind = Game then 4 else 3) \<le> p_size p
     \<and> p_size p \<le> (if kind = Game then 10 else 9)
     \<and> - 6 \<le> p_vr p \<and> p_vr p \<le> 6
     \<and> 0 \<le> p_rot p \<and> p_rot p < 2 * pi)"

section \<open>Properties of the particle factory\<close>

lemma rand_eq: "rand lo hi r = (r 0 * (hi - lo) + lo, \<lambda>n. r (Suc n))"
  by (simp add: rand_def Math_random_def)

lemma rng_ok_tail: "rng_ok r \<Longrightarrow> rng_ok (\<lambda>n. r (Suc n))"
  by (simp add: rng_ok_def)

lemma rand_range:
  assumes "rng_ok r" "lo \<le> hi"
  shows "lo \<le> fst (rand lo hi r)" "fst (rand lo hi r) \<le> hi" "rng_ok (snd (rand lo hi r))"
proof -
  have u: "0 \<le> r 0" "r 0 < 1" using assms(1) by (simp_all add: rng_ok_def)
  have "0 \<le> r 0 * (hi - lo)" using u assms(2) by simp
  then show "lo \<le> fst (rand lo hi r)" by (simp add: rand_eq)
  have "r 0 * (hi - lo) \<le> 1 * (hi - lo)"
    using u assms(2) by (intro mult_right_mono) simp_all
  then show "fst (rand lo hi r) \<le> hi" by (simp add: rand_eq)
  show "rng_ok (snd (rand lo hi r))" using assms(1) by (simp add: rand_eq rng_ok_tail)
qed

lemma rand_less:
  assumes "rng_ok r" "lo < hi"
  shows "fst (rand lo hi r) < hi"
proof -
  have u: "r 0 < 1" using assms(1) by (simp add: rng_ok_def)
  have "r 0 * (hi - lo) < 1 * (hi - lo)"
    using u assms(2) by (intro mult_strict_right_mono) simp_all
  then show ?thesis by (simp add: rand_eq)
qed

lemma spawn_fields:
  "p_x (fst (spawn kind x0 y0 r)) = x0"
  "p_y (fst (spawn kind x0 y0 r)) = y0"
  "p_life (fst (spawn kind x0 y0 r)) = 1"
  "p_size (fst (spawn kind x0 y0 r)) =
     fst (if kind = Game then rand 4 10 (\<lambda>n. r (n + 4)) else rand 3 9 (\<lambda>n. r (n + 4)))"
  "p_rot (fst (spawn kind x0 y0 r)) = fst (rand 0 (pi * 2) (\<lambda>n. r (n + 5)))"
  "p_vr (fst (spawn kind x0 y0 r)) = fst (rand (- 6) 6 (\<lambda>n. r (n + 6)))"
  "p_hollow (fst (spawn kind x0 y0 r)) = (kind = Media \<and> r 7 < 0.35)"
  by (simp_all add: spawn_def rand_eq Math_random_def Let_def eval_nat_numeral
      split: prod.splits)

lemma spawn_rng:
  "snd (spawn kind x0 y0 r) = (\<lambda>n. r (n + (if kind = Media then 8 else 7)))"
  by (simp add: spawn_def rand_eq Math_random_def Let_def eval_nat_numeral
      split: prod.splits)

lemma rng_ok_shift: "rng_ok r \<Longrightarrow> rng_ok (\<lambda>n. r (n + k))"
  by (simp add: rng_ok_def)

lemma spawn_rng_ok: "rng_ok r \<Longrightarrow> rng_ok (snd (spawn kind x0 y0 r))"
  by (simp only: spawn_rng rng_ok_shift)

lemma spawn_fresh:
  assumes "rng_ok r"
  shows "fresh kind (fst (spawn kind x0 y0 r))"
proof -
  let ?p = "fst (spawn kind x0 y0 r)"
  have ok: "\<And>k. rng_ok (\<lambda>n. r (n + k))" using assms by (rule rng_ok_shift)
  have sz: "(if kind = Game then 4 else 3) \<le> p_size ?p
            \<and> p_size ?p \<le> (if kind = Game then 10 else 9)"
    using rand_range(1,2)[OF ok, of 4 10 4] rand_range(1,2)[OF ok, of 3 9 4]
    by (simp add: spawn_fields)
  have vr: "- 6 \<le> p_vr ?p \<and> p_vr ?p \<le> 6"
    using rand_range(1,2)[OF ok, of "- 6" 6 6] by (simp add: spawn_fields)
  have rt: "0 \<le> p_rot ?p \<and> p_rot ?p < 2 * pi"
    using rand_range(1)[OF ok, of 0 "pi * 2" 5] rand_less[OF ok, of 0 "pi * 2" 5]
    by (simp add: spawn_fields)
  show ?thesis using sz vr rt by (simp add: fresh_def spawn_fields)
qed

lemma makeParticles_loop_length:
  "length (fst (makeParticles_loop kind x0 y0 count i out r)) = length out + (count - i)"
proof (induction kind x0 y0 count i out r rule: makeParticles_loop.induct)
  case (1 kind x0 y0 count i out r)
  show ?case
  proof (cases "i < count")
    case True
    obtain p r' where sp: "spawn kind x0 y0 r = (p, r')" by (cases "spawn kind x0 y0 r")
    from "1.IH"[OF True sp[symmetric] refl] True sp show ?thesis
      by (subst makeParticles_loop.simps) simp
  next
    case False
    then show ?thesis by (subst makeParticles_loop.simps) simp
  qed
qed

lemma makeParticles_loop_all:
  "(\<forall>r. Q r \<longrightarrow> P (fst (spawn kind x0 y0 r)) \<and> Q (snd (spawn kind x0 y0 r)))
   \<Longrightarrow> Q r \<Longrightarrow> list_all P out
   \<Longrightarrow> list_all P (fst (makeParticles_loop kind x0 y0 count i out r))"
proof (induction kind x0 y0 count i out r rule: makeParticles_loop.induct)
  case (1 kind x0 y0 count i out r)
  show ?case
  proof (cases "i < count")
    case True
    obtain p r' where sp: "spawn kind x0 y0 r = (p, r')" by (cases "spawn kind x0 y0 r")
    have "P p \<and> Q r'" using "1.prems"(1,2) sp by (metis fst_conv snd_conv)
    then have "list_all P (fst (makeParticles_loop kind x0 y0 count (i + 1) (out @ [p]) r'))"
      using "1.IH"[OF True sp[symmetric] refl "1.prems"(1)] "1.prems"(3) by simp
    then show ?thesis using True sp by (subst makeParticles_loop.simps) simp
  next
    case False
    then show ?thesis using "1.prems"(3) by (subst makeParticles_loop.simps) simp
  qed
qed

lemma makeParticles_length:
  "length (fst (makeParticles kind x0 y0 r)) = (if kind = Game then 55 else 45)"
  by (simp add: makeParticles_def makeParticles_loop_length del: makeParticles_loop.simps)

lemma makeParticles_fresh:
  "rng_ok r \<Longrightarrow> list_all (fresh kind) (fst (makeParticles kind x0 y0 r))"
  unfolding makeParticles_def Let_def
  by (rule makeParticles_loop_all[where Q = rng_ok]) (simp_all add: spawn_fresh spawn_rng_ok)

lemma makeParticles_origin:
  "list_all (\<lambda>p. p_x p = x0 \<and> p_y p = y0) (fst (makeParticles kind x0 y0 r))"
  unfolding makeParticles_def Let_def
  by (rule makeParticles_loop_all[where Q = "\<lambda>_. True"]) (simp_all add: spawn_fields)

subsection \<open>What the factory guarantees\<close>

text \<open>
  C3. Whatever the origin, and for every random source whose draws lie in \<open>[0, 1)\<close>,
  \<open>makeParticles\<close> returns exactly 55 particles for kind \<open>game\<close> and exactly 45 for
  kind \<open>media\<close>, and every particle returned has life 1, size in \<open>[4, 10]\<close> for
  \<open>game\<close> and \<open>[3, 9]\<close> for \<open>media\<close>, angular velocity in \<open>[-6, 6]\<close> and rotation
  in \<open>[0, 2\<pi>)\<close>.
\<close>

theorem makeParticles_count_and_ranges:
  assumes "rng_ok r"
  shows "length (fst (makeParticles Game x0 y0 r)) = 55
       \<and> length (fst (makeParticles Media x0 y0 r)) = 45
       \<and> (\<forall>p \<in> set (fst (makeParticles Game x0 y0 r)).
            p_life p = 1 \<and> 4 \<le> p_size p \<and> p_size p \<le> 10
            \<and> - 6 \<le> p_vr p \<and> p_vr p \<le> 6 \<and> 0 \<le> p_rot p \<and> p_rot p < 2 * pi)
       \<and> (\<forall>p \<in> set (fst (makeParticles Media x0 y0 r)).
            p_life p = 1 \<and> 3 \<le> p_size p \<and> p_size p \<le> 9
            \<and> - 6 \<le> p_vr p \<and> p_vr p \<le> 6 \<and> 0 \<le> p_rot p \<and> p_rot p < 2 * pi)"
proof -
  have g: "list_all (fresh Game) (fst (makeParticles Game x0 y0 r))"
    and m: "list_all (fresh Media) (fst (makeParticles Media x0 y0 r))"
    using assms by (rule makeParticles_fresh)+
  have "\<forall>p \<in> set (fst (makeParticles Game x0 y0 r)).
            p_life p = 1 \<and> 4 \<le> p_size p \<and> p_size p \<le> 10
            \<and> - 6 \<le> p_vr p \<and> p_vr p \<le> 6 \<and> 0 \<le> p_rot p \<and> p_rot p < 2 * pi"
    using g by (simp add: list_all_iff fresh_def)
  moreover have "\<forall>p \<in> set (fst (makeParticles Media x0 y0 r)).
            p_life p = 1 \<and> 3 \<le> p_size p \<and> p_size p \<le> 9
            \<and> - 6 \<le> p_vr p \<and> p_vr p \<le> 6 \<and> 0 \<le> p_rot p \<and> p_rot p < 2 * pi"
    using m by (simp add: list_all_iff fresh_def)
  ultimately show ?thesis by (simp add: makeParticles_length)
qed

theorem makeParticles_count_and_ranges_witness:
  "rng_ok (\<lambda>_. 1 / 2)
   \<and> length (fst (makeParticles Game 100 100 (\<lambda>_. 1 / 2))) = 55
   \<and> length (fst (makeParticles Media 100 100 (\<lambda>_. 1 / 2))) = 45
   \<and> list_all (\<lambda>p. p_life p = 1 \<and> 4 \<le> p_size p \<and> p_size p \<le> 10
            \<and> - 6 \<le> p_vr p \<and> p_vr p \<le> 6 \<and> 0 \<le> p_rot p \<and> p_rot p < 2 * pi)
        (fst (makeParticles Game 100 100 (\<lambda>_. 1 / 2)))
   \<and> list_all (\<lambda>p. p_life p = 1 \<and> 3 \<le> p_size p \<and> p_size p \<le> 9
            \<and> - 6 \<le> p_vr p \<and> p_vr p \<le> 6 \<and> 0 \<le> p_rot p \<and> p_rot p < 2 * pi)
        (fst (makeParticles Media 100 100 (\<lambda>_. 1 / 2)))"
proof -
  have ok: "rng_ok (\<lambda>_. 1 / 2)" by (simp add: rng_ok_def)
  show ?thesis
    using ok makeParticles_count_and_ranges[OF ok, of 100 100]
    by (simp add: list_all_iff)
qed

text \<open>
  C10. For every kind and every origin \<open>(x0, y0)\<close>, every particle returned by
  \<open>makeParticles\<close> starts exactly at the origin: the whole burst spawns at one point.
\<close>

theorem makeParticles_at_origin:
  "\<forall>p \<in> set (fst (makeParticles kind x0 y0 r)). p_x p = x0 \<and> p_y p = y0"
  using makeParticles_origin[of x0 y0 kind r] by (simp add: list_all_iff)

theorem makeParticles_at_origin_witness:
  "length (fst (makeParticles Media 100 50 (\<lambda>_. 1 / 2))) = 45
   \<and> list_all (\<lambda>p. p_x p = 100 \<and> p_y p = 50) (fst (makeParticles Media 100 50 (\<lambda>_. 1 / 2)))"
  using makeParticles_at_origin[of Media 100 50 "\<lambda>_. 1 / 2"]
  by (simp add: list_all_iff makeParticles_length)

text \<open>
  C5, as the specification states it, asks for a failure on an unrecognized style.
  \<open>makeParticles\<close> has no failing path: for the kind \<open>none\<close>, the one value of \<open>BurstKind\<close> that is not a burst
  style, it returns a burst of 45 particles, and the effect that starts a burst returns
  early without creating one.
\<close>

theorem makeParticles_none_counterexample:
  "length (fst (makeParticles KNone 100 100 (\<lambda>_. 1 / 2))) = 45
   \<and> start_burst True KNone (Some (200, 200)) 0
        \<lparr>particles = [], lastT = 0, scheduled = False, random_src = (\<lambda>_. 1 / 2)\<rparr> = None"
  by (simp add: makeParticles_length start_burst_def)

text \<open>
  C5, as amended. \<open>makeParticles\<close> never fails: for every \<open>BurstKind\<close>, recognized or
  not, it returns a burst, of 55 particles for \<open>game\<close> and of 45 for any other kind. The
  kind \<open>none\<close> is stopped by the guard of the effect that starts a burst, which returns
  without creating a burst and without raising; an active canvas of a kind other than
  \<open>none\<close> gets the burst of \<open>makeParticles\<close> at its centre.
\<close>

theorem makeParticles_never_fails:
  "length (fst (makeParticles kind x0 y0 r)) = (if kind = Game then 55 else 45)
   \<and> start_burst active KNone rect now s = None
   \<and> (active \<and> kind \<noteq> KNone \<longrightarrow>
        (\<exists>s'. start_burst active kind (Some (w, h)) now s = Some s'
              \<and> particles s' = fst (makeParticles kind (w / 2) (h / 2) (random_src s))))"
  by (simp add: makeParticles_length start_burst_def Let_def split: prod.splits)

theorem makeParticles_never_fails_witness:
  "length (fst (makeParticles Media 100 100 (\<lambda>_. 1 / 2))) = 45
   \<and> start_burst True KNone (Some (200, 200)) 0
        \<lparr>particles = [], lastT = 0, scheduled = False, random_src = (\<lambda>_. 1 / 2)\<rparr> = None
   \<and> (\<exists>s'. start_burst True Media (Some (200, 200)) 0
               \<lparr>particles = [], lastT = 0, scheduled = False, random_src = (\<lambda>_. 1 / 2)\<rparr>
             = Some s'
            \<and> particles s' = fst (makeParticles Media 100 100 (\<lambda>_. 1 / 2)))"
  using makeParticles_never_fails[of Media 100 100 "\<lambda>_. 1 / 2" True "Some (200, 200)" 0
      "\<lparr>particles = [], lastT = 0, scheduled = False, random_src = (\<lambda>_. 1 / 2)\<rparr>" 200 200]
  by simp

section \<open>The frame as a function of the burst\<close>

lemma update_particle_fields:
  "p_vy (update_particle kind g drag dt p) = (p_vy p + g * dt) * (drag powr (dt * 60))"
  "p_vx (update_particle kind g drag dt p) = p_vx p * (drag powr (dt * 60))"
  "p_x (update_particle kind g drag dt p) = p_x p + p_vx p * (drag powr (dt * 60)) * dt"
  "p_y (update_particle kind g drag dt p) =
     p_y p + (p_vy p + g * dt) * (drag powr (dt * 60)) * dt"
  "p_rot (update_particle kind g drag dt p) = p_rot p + p_vr p * dt"
  "p_life (update_particle kind g drag dt p) =
     clamp (p_life p - dt * (if kind = Game then 1.35 else 1.2)) 0 1"
  "p_size (update_particle kind g drag dt p) = p_size p"
  "p_vr (update_particle kind g drag dt p) = p_vr p"
  "p_hollow (update_particle kind g drag dt p) = p_hollow p"
  by (simp_all add: update_particle_def Let_def)

lemma draw_particle_dead: "p_life p \<le> 0 \<Longrightarrow> draw_particle kind p r = ([], r)"
  by (simp add: draw_particle_def)

text \<open>The loop updates every particle and draws the updated ones in order.\<close>

lemma tick_loop_eq:
  "tick_loop kind g drag dt ps r =
     (map (update_particle kind g drag dt) ps,
      draw_list kind (map (update_particle kind g drag dt) ps) r)"
  by (induction ps arbitrary: r) (simp_all add: Let_def split: prod.splits)

text \<open>Dead particles draw nothing and leave the random source alone.\<close>

lemma draw_list_filter:
  "draw_list kind (filter (\<lambda>p. 0 < p_life p) ps) r = draw_list kind ps r"
  by (induction ps arbitrary: r)
     (simp_all add: draw_particle_dead not_less Let_def split: prod.splits)

lemma tick_eq:
  "tick kind w h t s =
    (let ps = filter (\<lambda>p. 0 < p_life p)
                (map (update_particle kind (gravity kind) (drag_of kind) (frame_dt t s))
                   (particles s))
     in (s\<lparr>particles := ps, lastT := t, scheduled := (ps \<noteq> []),
           random_src := snd (draw_list kind ps (random_src s))\<rparr>,
         ClearRect 0 0 w h # fst (draw_list kind ps (random_src s))))"
  by (simp add: tick_def tick_loop_eq Let_def draw_list_filter frame_dt_def
      split: prod.splits)

lemma frame_dt_range: "0 \<le> frame_dt t s \<and> frame_dt t s \<le> 0.033"
  by (simp add: frame_dt_def clamp_def)

lemma tick_particles:
  "particles (fst (tick kind w h t s)) =
     filter (\<lambda>p. 0 < p_life p)
       (map (update_particle kind (gravity kind) (drag_of kind) (frame_dt t s)) (particles s))"
  by (simp add: tick_eq Let_def)

lemma tick_calls:
  "snd (tick kind w h t s) =
     ClearRect 0 0 w h # fst (draw_list kind (particles (fst (tick kind w h t s))) (random_src s))"
  by (simp add: tick_eq Let_def)

lemma count_Save_draw_particle:
  "count_list (fst (draw_particle kind p r)) Save = (if 0 < p_life p then 1 else 0)"
  by (simp add: draw_particle_def Let_def split: prod.splits)

lemma count_Save_draw_list:
  "count_list (fst (draw_list kind ps r)) Save = length (filter (\<lambda>p. 0 < p_life p) ps)"
proof (induction ps arbitrary: r)
  case Nil
  show ?case by simp
next
  case (Cons p ps)
  obtain c r1 where d: "draw_particle kind p r = (c, r1)" by (cases "draw_particle kind p r")
  have c: "count_list c Save = (if 0 < p_life p then 1 else 0)"
    using count_Save_draw_particle[of kind p r] d by simp
  obtain cs r2 where l: "draw_list kind ps r1 = (cs, r2)" by (cases "draw_list kind ps r1")
  show ?case using Cons.IH[of r1] d c l by simp
qed

lemma update_particle_zero:
  "update_particle kind g (drag_of kind) 0 p = p\<lparr>p_life := clamp (p_life p) 0 1\<rparr>"
  by (simp add: update_particle_def Let_def drag_of_def)

lemma clamp_unit: "0 \<le> l \<Longrightarrow> l \<le> 1 \<Longrightarrow> clamp l 0 1 = l"
  by (simp add: clamp_def)

lemma update_particle_zero_id:
  "0 \<le> p_life p \<Longrightarrow> p_life p \<le> 1 \<Longrightarrow> update_particle kind g (drag_of kind) 0 p = p"
  by (simp add: update_particle_zero clamp_unit)

lemma after_frames_hollow: "p_hollow (after_frames kind dts p) = p_hollow p"
  unfolding after_frames_def
  by (induction dts arbitrary: p) (simp_all add: update_particle_fields)

lemma draw_media_hollow:
  "0 < p_life q \<Longrightarrow> p_hollow q \<Longrightarrow>
   fst (draw_particle Media q r) =
     [Save, SetGlobalAlpha (p_life q), BeginPath, Arc (p_x q) (p_y q) (p_size q / 2) 0 (pi * 2),
      SetLineWidth 2,
      SetStrokeStyle (if fst (Math_random r) < 0.5 then ''#ff5aa5'' else ''#d10b66''),
      Stroke, Restore]"
  by (simp add: draw_particle_def Let_def split: prod.splits)

lemma draw_media_filled:
  "0 < p_life q \<Longrightarrow> \<not> p_hollow q \<Longrightarrow>
   fst (draw_particle Media q r) =
     [Save, SetGlobalAlpha (p_life q), BeginPath, Arc (p_x q) (p_y q) (p_size q / 2) 0 (pi * 2),
      SetFillStyle (if fst (Math_random r) < 0.5 then ''#d10b66'' else ''#ff5aa5''),
      Fill, Restore]"
  by (simp add: draw_particle_def Let_def split: prod.splits)

lemma draw_list_calls:
  "c \<in> set (fst (draw_list kind ps r))
   \<Longrightarrow> \<exists>p \<in> set ps. \<exists>r'. c \<in> set (fst (draw_particle kind p r'))"
proof (induction ps arbitrary: r)
  case Nil
  then show ?case by simp
next
  case (Cons p ps)
  obtain cs r1 where d: "draw_particle kind p r = (cs, r1)" by (cases "draw_particle kind p r")
  obtain cs' r2 where l: "draw_list kind ps r1 = (cs', r2)" by (cases "draw_list kind ps r1")
  from Cons.prems d l have "c \<in> set cs \<or> c \<in> set cs'" by simp
  then show ?case
  proof
    assume "c \<in> set cs"
    then have "c \<in> set (fst (draw_particle kind p r))" using d by simp
    then show ?thesis by auto
  next
    assume "c \<in> set cs'"
    then have "c \<in> set (fst (draw_list kind ps r1))" using l by simp
    from Cons.IH[OF this] show ?thesis by auto
  qed
qed

lemma media_Fill_not_hollow:
  "Fill \<in> set (fst (draw_particle Media p r)) \<Longrightarrow> \<not> p_hollow p"
  by (auto simp: draw_particle_def Let_def split: prod.splits if_splits)

lemma media_Stroke_hollow:
  "Stroke \<in> set (fst (draw_particle Media p r)) \<Longrightarrow> p_hollow p"
  by (auto simp: draw_particle_def Let_def split: prod.splits if_splits)

lemma tick_calls_origin:
  assumes "c \<in> set (snd (tick kind w h t s))" "c \<noteq> ClearRect 0 0 w h"
  shows "\<exists>p \<in> set (particles s). \<exists>r'.
           c \<in> set (fst (draw_particle kind
                 (update_particle kind (gravity kind) (drag_of kind) (frame_dt t s) p) r'))"
proof -
  from assms have "c \<in> set (fst (draw_list kind (particles (fst (tick kind w h t s))) (random_src s)))"
    by (subst (asm) tick_calls) simp
  from draw_list_calls[OF this] show ?thesis
    by (auto simp: tick_particles)
qed

lemma media_frame_all_hollow:
  assumes "\<forall>p \<in> set (particles s). p_hollow p"
  shows "Fill \<notin> set (snd (tick Media w h t s))"
proof
  assume "Fill \<in> set (snd (tick Media w h t s))"
  from tick_calls_origin[OF this] obtain p r' where
    p: "p \<in> set (particles s)"
    and "Fill \<in> set (fst (draw_particle Media
           (update_particle Media (gravity Media) (drag_of Media) (frame_dt t s) p) r'))"
    by auto
  from media_Fill_not_hollow[OF this(2)] p assms show False
    by (simp add: update_particle_fields)
qed

lemma media_frame_none_hollow:
  assumes "\<forall>p \<in> set (particles s). \<not> p_hollow p"
  shows "Stroke \<notin> set (snd (tick Media w h t s))"
proof
  assume "Stroke \<in> set (snd (tick Media w h t s))"
  from tick_calls_origin[OF this] obtain p r' where
    p: "p \<in> set (particles s)"
    and "Stroke \<in> set (fst (draw_particle Media
           (update_particle Media (gravity Media) (drag_of Media) (frame_dt t s) p) r'))"
    by auto
  from media_Stroke_hollow[OF this(2)] p assms show False
    by (simp add: update_particle_fields)
qed

lemma after_frames_snoc:
  "after_frames kind (dts @ [dt]) p =
     update_particle kind (gravity kind) (drag_of kind) dt (after_frames kind dts p)"
  by (simp add: after_frames_def)

lemma after_frames_life_unit:
  "0 \<le> p_life p \<Longrightarrow> p_life p \<le> 1
   \<Longrightarrow> 0 \<le> p_life (after_frames kind dts p) \<and> p_life (after_frames kind dts p) \<le> 1"
proof (induction dts rule: rev_induct)
  case Nil
  then show ?case by (simp add: after_frames_def)
next
  case (snoc dt dts)
  show ?case by (simp add: after_frames_snoc update_particle_fields clamp_def)
qed

lemma life_step:
  assumes "0 \<le> dt" and "0 \<le> p_life p"
  shows "p_life (update_particle kind g drag dt p) \<le> p_life p"
proof -
  have "0 \<le> dt * (if kind = Game then 1.35 else 1.2)" using assms(1) by simp
  then show ?thesis using assms(2)
    by (simp add: update_particle_fields clamp_def)
qed

lemma frame_dt_cases:
  "frame_dt t s =
     (if (t - lastT s) / 1000 < 0 then 0
      else if 0.033 < (t - lastT s) / 1000 then 0.033
      else (t - lastT s) / 1000)"
  by (simp add: frame_dt_def clamp_def)

lemma tick_lastT: "lastT (fst (tick kind w h t s)) = t"
  by (simp add: tick_eq Let_def)

lemma count_alpha_draw_particle:
  "p_life p = 1 \<Longrightarrow> count_list (fst (draw_particle kind p r)) (SetGlobalAlpha 1) = 1"
  by (simp add: draw_particle_def Let_def split: prod.splits)

lemma count_alpha_draw_list:
  "\<forall>p \<in> set ps. p_life p = 1
   \<Longrightarrow> count_list (fst (draw_list kind ps r)) (SetGlobalAlpha 1) = length ps"
proof (induction ps arbitrary: r)
  case Nil
  show ?case by simp
next
  case (Cons p ps)
  obtain c r1 where d: "draw_particle kind p r = (c, r1)" by (cases "draw_particle kind p r")
  obtain cs r2 where l: "draw_list kind ps r1 = (cs, r2)" by (cases "draw_list kind ps r1")
  have c: "count_list c (SetGlobalAlpha 1) = 1"
    using count_alpha_draw_particle[of p kind r] d Cons.prems by simp
  have "count_list cs (SetGlobalAlpha 1) = length ps"
    using Cons.IH[of r1] Cons.prems l by simp
  then show ?case using d c l by simp
qed

section \<open>One frame of physics\<close>

text \<open>
  C1. One frame of a game burst, 1000/60 ms after the last one (so \<open>dt = 1/60\<close>), on
  a particle at \<open>(100, 100)\<close> with velocity \<open>(200, -300)\<close> and life 1: gravity 520
  is added to \<open>vy\<close> first, then both velocity components are scaled by
  \<open>0.86 powr 1 = 0.86\<close>, the position advances by the scaled velocity times \<open>dt\<close>,
  and life drops by \<open>1.35/60 = 0.0225\<close> to \<open>0.9775\<close>.
\<close>

theorem game_frame_example:
  "particles (fst (tick Game w h (1000 / 60)
     \<lparr>particles = [\<lparr>p_x = 100, p_y = 100, p_vx = 200, p_vy = - 300, p_life = 1,
                     p_size = sz, p_rot = rt, p_vr = vr, p_hollow = hol\<rparr>],
      lastT = 0, scheduled = True, random_src = r\<rparr>))
   = [\<lparr>p_x = 100 + (200 * 0.86) * (1 / 60),
       p_y = 100 + ((- 300 + 520 * (1 / 60)) * 0.86) * (1 / 60),
       p_vx = 200 * 0.86,
       p_vy = (- 300 + 520 * (1 / 60)) * 0.86,
       p_life = 0.9775, p_size = sz, p_rot = rt + vr * (1 / 60), p_vr = vr,
       p_hollow = hol\<rparr>]"
  by (simp add: tick_eq frame_dt_def gravity_def drag_of_def update_particle_def Let_def
      clamp_def)

section \<open>Fading, culling and drawing\<close>

text \<open>
  C2. For every particle with life in \<open>[0, 1]\<close> (every particle of a burst has life in
  \<open>(0, 1]\<close>) and every frame with elapsed time \<open>dt \<ge> 0\<close>, the life after the frame is
  \<open>clamp (life - fadeRate * dt) 0 1\<close>; it lies in \<open>[0, 1]\<close> and is not larger than the
  life before the frame. The same holds after any number of frames: the life is still
  in \<open>[0, 1]\<close>, and one more frame does not increase it.
\<close>

theorem life_clamped_and_non_increasing:
  assumes "0 \<le> dt" and "0 \<le> p_life p" and "p_life p \<le> 1"
  shows "p_life (update_particle kind g drag dt p)
           = clamp (p_life p - (if kind = Game then 1.35 else 1.2) * dt) 0 1
       \<and> 0 \<le> p_life (update_particle kind g drag dt p)
       \<and> p_life (update_particle kind g drag dt p) \<le> 1
       \<and> p_life (update_particle kind g drag dt p) \<le> p_life p
       \<and> 0 \<le> p_life (after_frames kind dts p)
       \<and> p_life (after_frames kind dts p) \<le> 1
       \<and> p_life (after_frames kind (dts @ [dt]) p) \<le> p_life (after_frames kind dts p)"
proof -
  have eq: "p_life (update_particle kind g drag dt p)
           = clamp (p_life p - (if kind = Game then 1.35 else 1.2) * dt) 0 1"
    by (simp add: update_particle_fields mult.commute)
  have unit: "0 \<le> p_life (update_particle kind g drag dt p)
              \<and> p_life (update_particle kind g drag dt p) \<le> 1"
    by (simp add: update_particle_fields clamp_def)
  have run: "0 \<le> p_life (after_frames kind dts p) \<and> p_life (after_frames kind dts p) \<le> 1"
    using assms(2,3) by (rule after_frames_life_unit)
  then have mono: "p_life (after_frames kind (dts @ [dt]) p) \<le> p_life (after_frames kind dts p)"
    using life_step[OF assms(1)] by (simp add: after_frames_snoc)
  have step: "p_life (update_particle kind g drag dt p) \<le> p_life p"
    using assms(1,2) by (rule life_step)
  from eq unit run step mono show ?thesis by blast
qed

theorem life_clamped_and_non_increasing_witness:
  "(0::real) \<le> 1 / 60
  \<and> p_life (update_particle Game 520 0.86 (1 / 60)
       \<lparr>p_x = 100, p_y = 100, p_vx = 200, p_vy = - 300, p_life = 1,
         p_size = 5, p_rot = 0, p_vr = 3, p_hollow = False\<rparr>) = 0.9775
  \<and> p_life (after_frames Game [1 / 60, 1 / 60]
       \<lparr>p_x = 100, p_y = 100, p_vx = 200, p_vy = - 300, p_life = 1,
         p_size = 5, p_rot = 0, p_vr = 3, p_hollow = False\<rparr>)
    \<le> p_life (after_frames Game [1 / 60]
       \<lparr>p_x = 100, p_y = 100, p_vx = 200, p_vy = - 300, p_life = 1,
         p_size = 5, p_rot = 0, p_vr = 3, p_hollow = False\<rparr>)
  \<and> p_life (after_frames Game [1 / 60]
       \<lparr>p_x = 100, p_y = 100, p_vx = 200, p_vy = - 300, p_life = 1,
         p_size = 5, p_rot = 0, p_vr = 3, p_hollow = False\<rparr>) \<le> 1"
  using life_clamped_and_non_increasing[of "1 / 60"
      "\<lparr>p_x = 100, p_y = 100, p_vx = 200, p_vy = - 300, p_life = 1,
        p_size = 5, p_rot = 0, p_vr = 3, p_hollow = False\<rparr>" Game 520 "0.86" "[1 / 60]"]
  by (simp add: clamp_def)

text \<open>
  C6. In every frame, the burst after the step consists exactly of the updated
  particles whose life is greater than 0, in their order; the calls of the frame are
  the clearing of the canvas followed by the drawings of exactly these particles (one
  \<open>save\<close> per surviving particle), a particle whose life after the update is at most 0
  draws nothing, no particle of the new burst has life at most 0, and the burst does
  not grow.
\<close>

theorem frame_draws_and_keeps_live_particles:
  "particles (fst (tick kind w h t s)) =
     filter (\<lambda>p. 0 < p_life p)
       (map (update_particle kind (gravity kind) (drag_of kind) (frame_dt t s)) (particles s))
   \<and> snd (tick kind w h t s) =
     ClearRect 0 0 w h # fst (draw_list kind (particles (fst (tick kind w h t s))) (random_src s))
   \<and> count_list (snd (tick kind w h t s)) Save = length (particles (fst (tick kind w h t s)))
   \<and> (\<forall>p r. p_life p \<le> 0 \<longrightarrow> draw_particle kind p r = ([], r))
   \<and> (\<forall>p \<in> set (particles (fst (tick kind w h t s))). 0 < p_life p)
   \<and> length (particles (fst (tick kind w h t s))) \<le> length (particles s)"
proof -
  have b: "\<forall>p \<in> set (particles (fst (tick kind w h t s))). 0 < p_life p"
    by (simp add: tick_particles)
  then have live: "filter (\<lambda>p. 0 < p_life p) (particles (fst (tick kind w h t s)))
                     = particles (fst (tick kind w h t s))"
    by simp
  have a: "count_list (snd (tick kind w h t s)) Save = length (particles (fst (tick kind w h t s)))"
    by (subst tick_calls) (simp add: count_Save_draw_list live)
  have c: "length (particles (fst (tick kind w h t s))) \<le> length (particles s)"
    by (simp only: tick_particles) (metis length_filter_le length_map)
  show ?thesis using a b c tick_particles tick_calls draw_particle_dead by blast
qed

theorem frame_draws_and_keeps_live_particles_witness:
  "particles (fst (tick Game 200 200 (1000 / 60)
      \<lparr>particles =
         [\<lparr>p_x = 100, p_y = 100, p_vx = 0, p_vy = 0, p_life = 1,
           p_size = 4, p_rot = 0, p_vr = 0, p_hollow = False\<rparr>,
          \<lparr>p_x = 100, p_y = 100, p_vx = 0, p_vy = 0, p_life = 0.01,
           p_size = 4, p_rot = 0, p_vr = 0, p_hollow = False\<rparr>],
       lastT = 0, scheduled = True, random_src = (\<lambda>_. 1 / 2)\<rparr>))
    = [\<lparr>p_x = 100, p_y = 100 + (520 * (1 / 60) * 0.86) * (1 / 60), p_vx = 0,
        p_vy = 520 * (1 / 60) * 0.86, p_life = 0.9775,
        p_size = 4, p_rot = 0, p_vr = 0, p_hollow = False\<rparr>]
   \<and> snd (tick Game 200 200 (1000 / 60)
      \<lparr>particles =
         [\<lparr>p_x = 100, p_y = 100, p_vx = 0, p_vy = 0, p_life = 1,
           p_size = 4, p_rot = 0, p_vr = 0, p_hollow = False\<rparr>,
          \<lparr>p_x = 100, p_y = 100, p_vx = 0, p_vy = 0, p_life = 0.01,
           p_size = 4, p_rot = 0, p_vr = 0, p_hollow = False\<rparr>],
       lastT = 0, scheduled = True, random_src = (\<lambda>_. 1 / 2)\<rparr>)
    = [ClearRect 0 0 200 200, Save,
       Translate 100 (100 + (520 * (1 / 60) * 0.86) * (1 / 60)), Rotate 0,
       SetGlobalAlpha 0.9775, SetFillStyle ''rgba(255,255,255,1)'',
       FillRect (- 2) (- 2) 4 4, Restore]
   \<and> draw_particle Game
        \<lparr>p_x = 100, p_y = 100, p_vx = 0, p_vy = 520 * (1 / 60) * 0.86, p_life = 0,
          p_size = 4, p_rot = 0, p_vr = 0, p_hollow = False\<rparr> (\<lambda>_. 1 / 2)
      = ([], \<lambda>_. 1 / 2)"
  using frame_draws_and_keeps_live_particles[of Game 200 200 "1000 / 60"
      "\<lparr>particles =
         [\<lparr>p_x = 100, p_y = 100, p_vx = 0, p_vy = 0, p_life = 1,
           p_size = 4, p_rot = 0, p_vr = 0, p_hollow = False\<rparr>,
          \<lparr>p_x = 100, p_y = 100, p_vx = 0, p_vy = 0, p_life = 0.01,
           p_size = 4, p_rot = 0, p_vr = 0, p_hollow = False\<rparr>],
       lastT = 0, scheduled = True, random_src = (\<lambda>_. 1 / 2)\<rparr>"]
  by (simp add: frame_dt_def gravity_def drag_of_def update_particle_def clamp_def
      draw_particle_def Let_def)

text \<open>
  C7. The elapsed time \<open>tick\<close> uses is the time since the last frame in seconds,
  \<open>(t - lastT) / 1000\<close>, clamped into \<open>[0, 0.033]\<close>: 0 when it is negative, 0.033
  when it is larger, and itself otherwise; the particles are updated with this value
  and \<open>lastT\<close> becomes \<open>t\<close>. A frame whose clamped elapsed time is 0 leaves the
  position, velocity and rotation of every particle unchanged, and leaves a particle
  with life in \<open>[0, 1]\<close> unchanged as a whole, so it leaves a burst unchanged and draws
  it as it is; a particle with life 1 is still drawn in that frame, with opacity 1, and
  a burst of fresh particles is drawn whole, each particle with opacity 1.
\<close>

theorem zero_dt_frame_is_identity:
  "frame_dt t s =
     (if (t - lastT s) / 1000 < 0 then 0
      else if 0.033 < (t - lastT s) / 1000 then 0.033
      else (t - lastT s) / 1000)
   \<and> 0 \<le> frame_dt t s \<and> frame_dt t s \<le> 0.033
   \<and> lastT (fst (tick kind w h t s)) = t
   \<and> particles (fst (tick kind w h t s)) =
       filter (\<lambda>q. 0 < p_life q)
         (map (update_particle kind (gravity kind) (drag_of kind) (frame_dt t s)) (particles s))
   \<and> (frame_dt t s = 0 \<longrightarrow>
        p_x (update_particle kind (gravity kind) (drag_of kind) (frame_dt t s) p) = p_x p
      \<and> p_y (update_particle kind (gravity kind) (drag_of kind) (frame_dt t s) p) = p_y p
      \<and> p_vx (update_particle kind (gravity kind) (drag_of kind) (frame_dt t s) p) = p_vx p
      \<and> p_vy (update_particle kind (gravity kind) (drag_of kind) (frame_dt t s) p) = p_vy p
      \<and> p_rot (update_particle kind (gravity kind) (drag_of kind) (frame_dt t s) p) = p_rot p
      \<and> (0 \<le> p_life p \<and> p_life p \<le> 1 \<longrightarrow>
           update_particle kind (gravity kind) (drag_of kind) (frame_dt t s) p = p)
      \<and> (p_life p = 1 \<longrightarrow>
           SetGlobalAlpha 1 \<in> set (fst (draw_particle kind
             (update_particle kind (gravity kind) (drag_of kind) (frame_dt t s) p) r)))
      \<and> ((\<forall>q \<in> set (particles s). 0 < p_life q \<and> p_life q \<le> 1) \<longrightarrow>
           particles (fst (tick kind w h t s)) = particles s
         \<and> snd (tick kind w h t s) =
             ClearRect 0 0 w h # fst (draw_list kind (particles s) (random_src s)))
      \<and> ((\<forall>q \<in> set (particles s). p_life q = 1) \<longrightarrow>
           count_list (snd (tick kind w h t s)) (SetGlobalAlpha 1) = length (particles s)))"
proof -
  have fresh_drawn: "SetGlobalAlpha 1 \<in> set (fst (draw_particle kind q r))"
    if "p_life q = 1" for q
    using that by (simp add: draw_particle_def Let_def split: prod.splits)
  have burst: "particles (fst (tick kind w h t s)) = particles s"
    if z: "frame_dt t s = 0" and inv: "\<forall>q \<in> set (particles s). 0 < p_life q \<and> p_life q \<le> 1"
  proof -
    have "map (update_particle kind (gravity kind) (drag_of kind) 0) (particles s) = particles s"
      using inv by (intro map_idI update_particle_zero_id) auto
    then show ?thesis using inv z by (simp add: tick_particles)
  qed
  have calls: "snd (tick kind w h t s) =
                 ClearRect 0 0 w h # fst (draw_list kind (particles s) (random_src s))"
    if z: "frame_dt t s = 0" and inv: "\<forall>q \<in> set (particles s). 0 < p_life q \<and> p_life q \<le> 1"
    using burst[OF z inv] tick_calls[of kind w h t s] by simp
  have alphas: "count_list (snd (tick kind w h t s)) (SetGlobalAlpha 1) = length (particles s)"
    if z: "frame_dt t s = 0" and one: "\<forall>q \<in> set (particles s). p_life q = 1"
  proof -
    have inv: "\<forall>q \<in> set (particles s). 0 < p_life q \<and> p_life q \<le> 1" using one by simp
    show ?thesis
      using calls[OF z inv] count_alpha_draw_list[OF one, of kind "random_src s"] by simp
  qed
  let ?p' = "update_particle kind (gravity kind) (drag_of kind) (frame_dt t s) p"
  have fields: "p_x ?p' = p_x p \<and> p_y ?p' = p_y p \<and> p_vx ?p' = p_vx p
                \<and> p_vy ?p' = p_vy p \<and> p_rot ?p' = p_rot p"
    if "frame_dt t s = 0"
    using that by (simp add: update_particle_zero)
  have same: "?p' = p" if "frame_dt t s = 0" "0 \<le> p_life p \<and> p_life p \<le> 1"
    using that by (simp add: update_particle_zero_id)
  have drawn: "SetGlobalAlpha 1 \<in> set (fst (draw_particle kind ?p' r))"
    if "frame_dt t s = 0" "p_life p = 1"
    using that same fresh_drawn[of p] by simp
  have zero: "frame_dt t s = 0 \<longrightarrow>
        p_x ?p' = p_x p \<and> p_y ?p' = p_y p \<and> p_vx ?p' = p_vx p \<and> p_vy ?p' = p_vy p
      \<and> p_rot ?p' = p_rot p
      \<and> (0 \<le> p_life p \<and> p_life p \<le> 1 \<longrightarrow> ?p' = p)
      \<and> (p_life p = 1 \<longrightarrow> SetGlobalAlpha 1 \<in> set (fst (draw_particle kind ?p' r)))
      \<and> ((\<forall>q \<in> set (particles s). 0 < p_life q \<and> p_life q \<le> 1) \<longrightarrow>
           particles (fst (tick kind w h t s)) = particles s
         \<and> snd (tick kind w h t s) =
             ClearRect 0 0 w h # fst (draw_list kind (particles s) (random_src s)))
      \<and> ((\<forall>q \<in> set (particles s). p_life q = 1) \<longrightarrow>
           count_list (snd (tick kind w h t s)) (SetGlobalAlpha 1) = length (particles s))"
    using fields same drawn burst calls alphas by blast
  show ?thesis
    using frame_dt_cases[of t s] frame_dt_range[of t s] tick_lastT[of kind w h t s]
      tick_particles[of kind w h t s] zero
    by (intro conjI) blast+
qed

theorem zero_dt_frame_is_identity_witness:
  "frame_dt 0 \<lparr>particles =
         [\<lparr>p_x = 100, p_y = 100, p_vx = 200, p_vy = - 300, p_life = 1,
           p_size = 4, p_rot = 1, p_vr = 3, p_hollow = True\<rparr>],
       lastT = 5, scheduled = True, random_src = (\<lambda>_. 1 / 2)\<rparr> = 0
   \<and> frame_dt 1016 \<lparr>particles =
         [\<lparr>p_x = 100, p_y = 100, p_vx = 200, p_vy = - 300, p_life = 1,
           p_size = 4, p_rot = 1, p_vr = 3, p_hollow = True\<rparr>],
       lastT = 1000, scheduled = True, random_src = (\<lambda>_. 1 / 2)\<rparr> = 0.016
   \<and> frame_dt 5000 \<lparr>particles =
         [\<lparr>p_x = 100, p_y = 100, p_vx = 200, p_vy = - 300, p_life = 1,
           p_size = 4, p_rot = 1, p_vr = 3, p_hollow = True\<rparr>],
       lastT = 1000, scheduled = True, random_src = (\<lambda>_. 1 / 2)\<rparr> = 0.033
   \<and> lastT (fst (tick Media 200 200 0 \<lparr>particles =
         [\<lparr>p_x = 100, p_y = 100, p_vx = 200, p_vy = - 300, p_life = 1,
           p_size = 4, p_rot = 1, p_vr = 3, p_hollow = True\<rparr>],
       lastT = 5, scheduled = True, random_src = (\<lambda>_. 1 / 2)\<rparr>)) = 0
   \<and> update_particle Media (gravity Media) (drag_of Media) 0
        \<lparr>p_x = 100, p_y = 100, p_vx = 200, p_vy = - 300, p_life = 1,
           p_size = 4, p_rot = 1, p_vr = 3, p_hollow = True\<rparr>
      = \<lparr>p_x = 100, p_y = 100, p_vx = 200, p_vy = - 300, p_life = 1,
           p_size = 4, p_rot = 1, p_vr = 3, p_hollow = True\<rparr>
   \<and> SetGlobalAlpha 1 \<in> set (fst (draw_particle Media
        (update_particle Media (gravity Media) (drag_of Media) 0
          \<lparr>p_x = 100, p_y = 100, p_vx = 200, p_vy = - 300, p_life = 1,
           p_size = 4, p_rot = 1, p_vr = 3, p_hollow = True\<rparr>) (\<lambda>_. 1 / 2)))
   \<and> particles (fst (tick Media 200 200 0 \<lparr>particles =
         [\<lparr>p_x = 100, p_y = 100, p_vx = 200, p_vy = - 300, p_life = 1,
           p_size = 4, p_rot = 1, p_vr = 3, p_hollow = True\<rparr>],
       lastT = 5, scheduled = True, random_src = (\<lambda>_. 1 / 2)\<rparr>))
      = [\<lparr>p_x = 100, p_y = 100, p_vx = 200, p_vy = - 300, p_life = 1,
           p_size = 4, p_rot = 1, p_vr = 3, p_hollow = True\<rparr>]
   \<and> snd (tick Media 200 200 0 \<lparr>particles =
         [\<lparr>p_x = 100, p_y = 100, p_vx = 200, p_vy = - 300, p_life = 1,
           p_size = 4, p_rot = 1, p_vr = 3, p_hollow = True\<rparr>],
       lastT = 5, scheduled = True, random_src = (\<lambda>_. 1 / 2)\<rparr>)
      = [ClearRect 0 0 200 200, Save, SetGlobalAlpha 1, BeginPath, Arc 100 100 2 0 (pi * 2),
         SetLineWidth 2, SetStrokeStyle ''#d10b66'', Stroke, Restore]
   \<and> count_list (snd (tick Media 200 200 0 \<lparr>particles =
         [\<lparr>p_x = 100, p_y = 100, p_vx = 200, p_vy = - 300, p_life = 1,
           p_size = 4, p_rot = 1, p_vr = 3, p_hollow = True\<rparr>],
       lastT = 5, scheduled = True, random_src = (\<lambda>_. 1 / 2)\<rparr>)) (SetGlobalAlpha 1) = 1"
proof -
  have z: "frame_dt 0 \<lparr>particles =
         [\<lparr>p_x = 100, p_y = 100, p_vx = 200, p_vy = - 300, p_life = 1,
           p_size = 4, p_rot = 1, p_vr = 3, p_hollow = True\<rparr>],
       lastT = 5, scheduled = True, random_src = (\<lambda>_. 1 / 2)\<rparr> = 0"
    by (simp add: frame_dt_def clamp_def)
  show ?thesis
    using z
      zero_dt_frame_is_identity[of 0
        "\<lparr>particles =
         [\<lparr>p_x = 100, p_y = 100, p_vx = 200, p_vy = - 300, p_life = 1,
           p_size = 4, p_rot = 1, p_vr = 3, p_hollow = True\<rparr>],
       lastT = 5, scheduled = True, random_src = (\<lambda>_. 1 / 2)\<rparr>"
        Media 200 200
        "\<lparr>p_x = 100, p_y = 100, p_vx = 200, p_vy = - 300, p_life = 1,
           p_size = 4, p_rot = 1, p_vr = 3, p_hollow = True\<rparr>"
        "\<lambda>_. 1 / 2"]
      zero_dt_frame_is_identity[of 1016
        "\<lparr>particles =
         [\<lparr>p_x = 100, p_y = 100, p_vx = 200, p_vy = - 300, p_life = 1,
           p_size = 4, p_rot = 1, p_vr = 3, p_hollow = True\<rparr>],
       lastT = 1000, scheduled = True, random_src = (\<lambda>_. 1 / 2)\<rparr>"
        Media 200 200
        "\<lparr>p_x = 100, p_y = 100, p_vx = 200, p_vy = - 300, p_life = 1,
           p_size = 4, p_rot = 1, p_vr = 3, p_hollow = True\<rparr>"
        "\<lambda>_. 1 / 2"]
      zero_dt_frame_is_identity[of 5000
        "\<lparr>particles =
         [\<lparr>p_x = 100, p_y = 100, p_vx = 200, p_vy = - 300, p_life = 1,
           p_size = 4, p_rot = 1, p_vr = 3, p_hollow = True\<rparr>],
       lastT = 1000, scheduled = True, random_src = (\<lambda>_. 1 / 2)\<rparr>"
        Media 200 200
        "\<lparr>p_x = 100, p_y = 100, p_vx = 200, p_vy = - 300, p_life = 1,
           p_size = 4, p_rot = 1, p_vr = 3, p_hollow = True\<rparr>"
        "\<lambda>_. 1 / 2"]
    by (simp add: update_particle_zero_id draw_particle_def Math_random_def Let_def)
qed

text \<open>
  C8. A frame leaves the size, the angular velocity and the hollow flag of every
  particle unchanged: the update of a particle changes at most its position, velocity,
  rotation and life, and so do the loop of \<open>tick\<close> and \<open>tick\<close> itself, particle by
  particle.
\<close>

theorem frame_keeps_size_spin_and_shape:
  "p_size (update_particle kind g drag dt p) = p_size p
   \<and> p_vr (update_particle kind g drag dt p) = p_vr p
   \<and> p_hollow (update_particle kind g drag dt p) = p_hollow p
   \<and> update_particle kind g drag dt p =
       p\<lparr>p_x := p_x (update_particle kind g drag dt p),
         p_y := p_y (update_particle kind g drag dt p),
         p_vx := p_vx (update_particle kind g drag dt p),
         p_vy := p_vy (update_particle kind g drag dt p),
         p_rot := p_rot (update_particle kind g drag dt p),
         p_life := p_life (update_particle kind g drag dt p)\<rparr>
   \<and> list_all2 (\<lambda>q p. p_size q = p_size p \<and> p_vr q = p_vr p \<and> p_hollow q = p_hollow p)
        (fst (tick_loop kind g drag dt ps r)) ps
   \<and> list_all2 (\<lambda>q p. p_size q = p_size p \<and> p_vr q = p_vr p \<and> p_hollow q = p_hollow p)
        (particles (fst (tick kind w h t s)))
        (filter (\<lambda>p. 0 < p_life (update_particle kind (gravity kind) (drag_of kind)
                                    (frame_dt t s) p)) (particles s))"
proof -
  have a: "list_all2 (\<lambda>q p. p_size q = p_size p \<and> p_vr q = p_vr p \<and> p_hollow q = p_hollow p)
        (fst (tick_loop kind g drag dt ps r)) ps"
    by (simp add: tick_loop_eq list_all2_map1 update_particle_fields list_all2_same)
  have b: "list_all2 (\<lambda>q p. p_size q = p_size p \<and> p_vr q = p_vr p \<and> p_hollow q = p_hollow p)
        (particles (fst (tick kind w h t s)))
        (filter (\<lambda>p. 0 < p_life (update_particle kind (gravity kind) (drag_of kind)
                                    (frame_dt t s) p)) (particles s))"
    by (simp add: tick_particles filter_map comp_def list_all2_map1 update_particle_fields
        list_all2_same)
  have c: "update_particle kind g drag dt p =
       p\<lparr>p_x := p_x (update_particle kind g drag dt p),
         p_y := p_y (update_particle kind g drag dt p),
         p_vx := p_vx (update_particle kind g drag dt p),
         p_vy := p_vy (update_particle kind g drag dt p),
         p_rot := p_rot (update_particle kind g drag dt p),
         p_life := p_life (update_particle kind g drag dt p)\<rparr>"
    by (simp add: update_particle_def Let_def)
  show ?thesis using a b c by (simp add: update_particle_fields)
qed

text \<open>
  C4. A media particle keeps its hollow flag through any number of frames. Whenever a
  hollow one is drawn, the calls are exactly: save, alpha, path, arc, line width 2,
  stroke colour, stroke, restore; no fill, whatever the colour draw. Whenever a
  particle that is not hollow is drawn, the calls end in fill colour, fill, restore,
  with no stroke. A dead particle draws nothing. In a frame of a media burst of hollow
  particles only there is no fill, and in a frame of a media burst without hollow
  particles there is no stroke.
\<close>

theorem media_hollow_is_stroked_never_filled:
  "((\<forall>q \<in> set (particles s). p_hollow q) \<longrightarrow> Fill \<notin> set (snd (tick Media w h t s)))
   \<and> ((\<forall>q \<in> set (particles s). \<not> p_hollow q) \<longrightarrow> Stroke \<notin> set (snd (tick Media w h t s)))
   \<and> p_hollow (after_frames Media dts p) = p_hollow p
   \<and> (p_hollow p \<longrightarrow>
        Fill \<notin> set (fst (draw_particle Media (after_frames Media dts p) r))
      \<and> (\<forall>a b c d. FillRect a b c d \<notin> set (fst (draw_particle Media (after_frames Media dts p) r)))
      \<and> (\<forall>wd. SetLineWidth wd \<in> set (fst (draw_particle Media (after_frames Media dts p) r))
              \<longrightarrow> wd = 2)
      \<and> (0 < p_life (after_frames Media dts p) \<longrightarrow>
           fst (draw_particle Media (after_frames Media dts p) r) =
             [Save, SetGlobalAlpha (p_life (after_frames Media dts p)), BeginPath,
              Arc (p_x (after_frames Media dts p)) (p_y (after_frames Media dts p))
                  (p_size p / 2) 0 (pi * 2),
              SetLineWidth 2,
              SetStrokeStyle (if fst (Math_random r) < 0.5 then ''#ff5aa5'' else ''#d10b66''),
              Stroke, Restore]))
   \<and> (\<not> p_hollow p \<longrightarrow>
        Stroke \<notin> set (fst (draw_particle Media (after_frames Media dts p) r))
      \<and> (0 < p_life (after_frames Media dts p) \<longrightarrow>
           fst (draw_particle Media (after_frames Media dts p) r) =
             [Save, SetGlobalAlpha (p_life (after_frames Media dts p)), BeginPath,
              Arc (p_x (after_frames Media dts p)) (p_y (after_frames Media dts p))
                  (p_size p / 2) 0 (pi * 2),
              SetFillStyle (if fst (Math_random r) < 0.5 then ''#d10b66'' else ''#ff5aa5''),
              Fill, Restore]))"
proof -
  let ?q = "after_frames Media dts p"
  have h: "p_hollow ?q = p_hollow p" by (rule after_frames_hollow)
  have sz: "p_size ?q = p_size p"
    unfolding after_frames_def
    by (induction dts arbitrary: p) (simp_all add: update_particle_fields)
  have frame: "((\<forall>q \<in> set (particles s). p_hollow q) \<longrightarrow>
                  Fill \<notin> set (snd (tick Media w h t s)))
             \<and> ((\<forall>q \<in> set (particles s). \<not> p_hollow q) \<longrightarrow>
                  Stroke \<notin> set (snd (tick Media w h t s)))"
    using media_frame_all_hollow[of s w h t] media_frame_none_hollow[of s w h t] by blast
  show ?thesis
  proof (cases "0 < p_life ?q")
    case True
    show ?thesis
    proof (cases "p_hollow p")
      case True
      with \<open>0 < p_life ?q\<close> h have "p_hollow ?q" by simp
      from draw_media_hollow[OF \<open>0 < p_life ?q\<close> this, of r] True h sz frame
      show ?thesis by simp
    next
      case False
      with h have "\<not> p_hollow ?q" by simp
      from draw_media_filled[OF \<open>0 < p_life ?q\<close> this, of r] False h sz frame
      show ?thesis by simp
    qed
  next
    case False
    then have "draw_particle Media ?q r = ([], r)" by (simp add: draw_particle_dead)
    with False h frame show ?thesis by simp
  qed
qed

theorem media_hollow_is_stroked_never_filled_witness:
  "fst (draw_particle Media (after_frames Media [1 / 60]
      \<lparr>p_x = 100, p_y = 100, p_vx = 0, p_vy = 0, p_life = 1,
        p_size = 6, p_rot = 0, p_vr = 0, p_hollow = True\<rparr>) (\<lambda>_. 1 / 2))
   = [Save, SetGlobalAlpha 0.98, BeginPath,
      Arc 100 (100 + (420 * (1 / 60) * 0.88) * (1 / 60)) 3 0 (pi * 2),
      SetLineWidth 2, SetStrokeStyle ''#d10b66'', Stroke, Restore]
   \<and> Fill \<notin> set (fst (draw_particle Media (after_frames Media [1 / 60]
      \<lparr>p_x = 100, p_y = 100, p_vx = 0, p_vy = 0, p_life = 1,
        p_size = 6, p_rot = 0, p_vr = 0, p_hollow = True\<rparr>) (\<lambda>_. 1 / 2)))
   \<and> Fill \<notin> set (snd (tick Media 200 200 (1000 / 60)
      \<lparr>particles =
         [\<lparr>p_x = 100, p_y = 100, p_vx = 0, p_vy = 0, p_life = 1,
           p_size = 6, p_rot = 0, p_vr = 0, p_hollow = True\<rparr>],
       lastT = 0, scheduled = True, random_src = (\<lambda>_. 1 / 2)\<rparr>))
   \<and> fst (draw_particle Media (after_frames Media [1 / 60]
      \<lparr>p_x = 100, p_y = 100, p_vx = 0, p_vy = 0, p_life = 1,
        p_size = 6, p_rot = 0, p_vr = 0, p_hollow = False\<rparr>) (\<lambda>_. 1 / 2))
   = [Save, SetGlobalAlpha 0.98, BeginPath,
      Arc 100 (100 + (420 * (1 / 60) * 0.88) * (1 / 60)) 3 0 (pi * 2),
      SetFillStyle ''#ff5aa5'', Fill, Restore]
   \<and> Stroke \<notin> set (snd (tick Media 200 200 (1000 / 60)
      \<lparr>particles =
         [\<lparr>p_x = 100, p_y = 100, p_vx = 0, p_vy = 0, p_life = 1,
           p_size = 6, p_rot = 0, p_vr = 0, p_hollow = False\<rparr>],
       lastT = 0, scheduled = True, random_src = (\<lambda>_. 1 / 2)\<rparr>))"
  using media_hollow_is_stroked_never_filled[where dts = "[1 / 60]" and r = "\<lambda>_. 1 / 2"
      and w = 200 and h = 200 and t = "1000 / 60"
      and p = "\<lparr>p_x = 100, p_y = 100, p_vx = 0, p_vy = 0, p_life = 1,
        p_size = 6, p_rot = 0, p_vr = 0, p_hollow = True\<rparr>"
      and s = "\<lparr>particles =
         [\<lparr>p_x = 100, p_y = 100, p_vx = 0, p_vy = 0, p_life = 1,
           p_size = 6, p_rot = 0, p_vr = 0, p_hollow = True\<rparr>],
       lastT = 0, scheduled = True, random_src = (\<lambda>_. 1 / 2)\<rparr>"]
    media_hollow_is_stroked_never_filled[where dts = "[1 / 60]" and r = "\<lambda>_. 1 / 2"
      and w = 200 and h = 200 and t = "1000 / 60"
      and p = "\<lparr>p_x = 100, p_y = 100, p_vx = 0, p_vy = 0, p_life = 1,
        p_size = 6, p_rot = 0, p_vr = 0, p_hollow = False\<rparr>"
      and s = "\<lparr>particles =
         [\<lparr>p_x = 100, p_y = 100, p_vx = 0, p_vy = 0, p_life = 1,
           p_size = 6, p_rot = 0, p_vr = 0, p_hollow = False\<rparr>],
       lastT = 0, scheduled = True, random_src = (\<lambda>_. 1 / 2)\<rparr>"]
  by (simp add: after_frames_def update_particle_def gravity_def drag_of_def clamp_def
      Let_def draw_particle_def Math_random_def)

end
